theory Spec2Isabelle
  imports Complex_Main "HOL-Library.Word" "HOL-Library.List_Lexorder" "HOL-Library.Log_Nat"
begin

section \<open>Strings of the host language\<close>

text \<open>
  A JavaScript string is a sequence of 16-bit code units. Identifiers, names, message
  texts and ISO-8601 timestamps are all values of this type. Lists of code units are
  ordered lexicographically, which on the ASCII timestamps written by
  \<^verbatim>\<open>new Date().toISOString()\<close> is the chronological order.
\<close>

type_synonym jsstring = "16 word list"

definition js :: "string \<Rightarrow> jsstring" where
  "js s = map (\<lambda>c. of_nat (of_char c)) s"

text \<open>
  \<^verbatim>\<open>String.prototype.trim\<close> removes leading and trailing white space and line
  terminators: TAB, LF, VT, FF, CR, SP, NBSP, U+1680, U+2000..U+200A, U+2028, U+2029,
  U+202F, U+205F, U+3000 and U+FEFF.
\<close>

definition isWhiteSpace :: "16 word \<Rightarrow> bool" where
  "isWhiteSpace c \<longleftrightarrow>
     c = 0x0009 \<or> c = 0x000A \<or> c = 0x000B \<or> c = 0x000C \<or> c = 0x000D \<or> c = 0x0020 \<or>
     c = 0x00A0 \<or> c = 0x1680 \<or> (0x2000 \<le> c \<and> c \<le> 0x200A) \<or> c = 0x2028 \<or>
     c = 0x2029 \<or> c = 0x202F \<or> c = 0x205F \<or> c = 0x3000 \<or> c = 0xFEFF"

definition trim :: "jsstring \<Rightarrow> jsstring" where
  "trim s = rev (dropWhile isWhiteSpace (rev (dropWhile isWhiteSpace s)))"

text \<open>A string is truthy exactly when it is not empty.\<close>

definition truthy :: "jsstring \<Rightarrow> bool" where
  "truthy s \<longleftrightarrow> s \<noteq> []"

section \<open>Admin dashboard: the analytics aggregation\<close>

text \<open>
  The counters of \<^verbatim>\<open>calculateAnalytics\<close> are JavaScript numbers. A counter that was
  incremented from a defined number is a natural number; \<^verbatim>\<open>undefined + 1\<close> is
  \<^verbatim>\<open>NaN\<close>, and \<^verbatim>\<open>NaN + 1\<close> stays \<^verbatim>\<open>NaN\<close>. A rating is a whole number.
\<close>

datatype jscount = Num nat | NaN

record feedback =
  fb_id :: jsstring
  rating :: int
  comment :: jsstring
  email :: jsstring
  fb_userEmail :: jsstring

record survey =
  sv_id :: jsstring
  answers_features :: "jsstring list option"
  answers_satisfaction :: "jsstring option"
  suggestion :: jsstring
  sv_userEmail :: jsstring

subsection \<open>Double-precision numbers\<close>

text \<open>
  \<^verbatim>\<open>totalRating\<close> and \<^verbatim>\<open>averageRating\<close> are IEEE 754 binary64 numbers. A finite
  double is given by the rational it denotes; the two zeros are one value here, since no
  computation below tells them apart.
\<close>

datatype double = Finite rat | PlusInfinity | MinusInfinity | NotANumber

text \<open>
  The binary exponent of a positive rational \<open>a\<close>: the \<open>e\<close> with
  \<open>2 ^ e \<le> a < 2 ^ (e + 1)\<close>, from the bit length of the integer part of \<open>a\<close> or, below
  one, of \<open>1 / a\<close> rounded up.
\<close>

definition binaryExponent :: "rat \<Rightarrow> int" where
  "binaryExponent a = (if 1 \<le> a then bitlen \<lfloor>a\<rfloor> - 1 else - bitlen (\<lceil>1 / a\<rceil> - 1))"

text \<open>Rounding to the nearest integer, a tie going to the even one.\<close>

definition roundHalfEven :: "rat \<Rightarrow> int" where
  "roundHalfEven x =
     (let f = \<lfloor>x\<rfloor>; d = x - of_int f
      in if d < 1 / 2 then f else if 1 / 2 < d then f + 1 else if even f then f else f + 1)"

text \<open>
  The double nearest to a rational, ties to even: 53 significant bits, the spacing of the
  subnormal numbers below \<open>2 ^ -1022\<close>, and an infinity when the rounded magnitude
  reaches \<open>2 ^ 1024\<close>. Every arithmetic operation on doubles is the exact operation followed
  by this rounding.
\<close>

definition roundToDouble :: "rat \<Rightarrow> double" where
  "roundToDouble q =
     (if q = 0 then Finite 0
      else
        let a = \<bar>q\<bar>;
            e = max (binaryExponent a) (- 1022);
            quantum = 2 powi (e - 52);
            r = of_int (roundHalfEven (a / quantum)) * quantum
        in if 2 powi 1024 \<le> r then (if 0 < q then PlusInfinity else MinusInfinity)
           else Finite (sgn q * r))"

text \<open>A whole number as a double.\<close>

definition toDouble :: "int \<Rightarrow> double" where
  "toDouble k = roundToDouble (of_int k)"

text \<open>The operators \<^verbatim>\<open>+\<close> and \<^verbatim>\<open>/\<close> on numbers.\<close>

fun dadd :: "double \<Rightarrow> double \<Rightarrow> double" where
  "dadd (Finite x) (Finite y) = roundToDouble (x + y)"
| "dadd NotANumber _ = NotANumber"
| "dadd _ NotANumber = NotANumber"
| "dadd PlusInfinity MinusInfinity = NotANumber"
| "dadd MinusInfinity PlusInfinity = NotANumber"
| "dadd PlusInfinity _ = PlusInfinity"
| "dadd _ PlusInfinity = PlusInfinity"
| "dadd MinusInfinity _ = MinusInfinity"
| "dadd _ MinusInfinity = MinusInfinity"

fun ddiv :: "double \<Rightarrow> double \<Rightarrow> double" where
  "ddiv (Finite x) (Finite y) =
     (if y = 0 then (if x = 0 then NotANumber else if 0 < x then PlusInfinity else MinusInfinity)
      else roundToDouble (x / y))"
| "ddiv NotANumber _ = NotANumber"
| "ddiv _ NotANumber = NotANumber"
| "ddiv (Finite x) _ = Finite 0"
| "ddiv PlusInfinity (Finite y) = (if 0 \<le> y then PlusInfinity else MinusInfinity)"
| "ddiv MinusInfinity (Finite y) = (if 0 \<le> y then MinusInfinity else PlusInfinity)"
| "ddiv _ _ = NotANumber"

subsection \<open>The aggregation\<close>

text \<open>
  The summary stored by \<^verbatim>\<open>calculateAnalytics\<close>, as far as it depends on the feedback:
  the two totals, the average and the rating distribution. The function also builds two
  histograms from the surveys alone, in objects of their own; they do not enter these
  fields and are not part of the record.
\<close>

record analytics =
  totalFeedback :: nat
  totalSurveys :: nat
  averageRating :: double
  ratingDistribution :: "int \<rightharpoonup> jscount"

text \<open>The object literal \<^verbatim>\<open>{ 1: 0, 2: 0, 3: 0, 4: 0, 5: 0 }\<close>.\<close>

definition initialDistribution :: "int \<rightharpoonup> jscount" where
  "initialDistribution = [1 \<mapsto> Num 0, 2 \<mapsto> Num 0, 3 \<mapsto> Num 0, 4 \<mapsto> Num 0, 5 \<mapsto> Num 0]"

text \<open>
  \<^verbatim>\<open>ratingDistribution[r]++\<close>: the property is read, one is added and the result is
  stored under the same key, which is created when it was missing.
\<close>

definition increment :: "(int \<rightharpoonup> jscount) \<Rightarrow> int \<Rightarrow> (int \<rightharpoonup> jscount)" where
  "increment d r =
     d(r \<mapsto> (case d r of
                None \<Rightarrow> NaN
              | Some NaN \<Rightarrow> NaN
              | Some (Num n) \<Rightarrow> Num (Suc n)))"

text \<open>
  The first \<^verbatim>\<open>forEach\<close>: the loop state is the distribution and
  \<^verbatim>\<open>totalRating\<close>, a double to which each rating is added in turn.
\<close>

fun ratingLoop ::
  "feedback list \<Rightarrow> (int \<rightharpoonup> jscount) \<times> double \<Rightarrow> (int \<rightharpoonup> jscount) \<times> double" where
  "ratingLoop [] acc = acc"
| "ratingLoop (f # fs) (d, totalRating) =
     ratingLoop fs (increment d (rating f), dadd totalRating (toDouble (rating f)))"

text \<open>
  \<^verbatim>\<open>calculateAnalytics\<close> reads the two record lists of the component and stores the
  summary; \<^verbatim>\<open>totalRating / feedback.length\<close> is the division of doubles.
\<close>

definition calculateAnalytics :: "feedback list \<Rightarrow> survey list \<Rightarrow> analytics" where
  "calculateAnalytics fbs svs =
     (let (dist, totalRating) = ratingLoop fbs (initialDistribution, Finite 0) in
      \<lparr> totalFeedback = length fbs,
        totalSurveys = length svs,
        averageRating = (if length fbs > 0 then ddiv totalRating (toDouble (int (length fbs)))
                         else Finite 0),
        ratingDistribution = dist \<rparr>)"

text \<open>A feedback record with a given rating, for concrete samples.\<close>

definition rated :: "int \<Rightarrow> feedback" where
  "rated r = \<lparr> fb_id = [], rating = r, comment = [], email = [], fb_userEmail = [] \<rparr>"

section \<open>Notification badge\<close>

text \<open>
  The \<^verbatim>\<open>notificationData\<close> object embedded in a user profile. Every field may be
  missing. A stored time is a timestamp object: it is truthy whenever it is present, and
  \<^verbatim>\<open>>\<close> compares the instants, given here in milliseconds.
\<close>

record notificationData =
  nd_unreadCount :: "int option"
  lastNotificationTime :: "int option"
  lastSeenTime :: "int option"

record badge_state =
  unreadCount :: int
  hasNewNotifications :: bool

text \<open>\<^verbatim>\<open>useState(0)\<close> and \<^verbatim>\<open>useState(false)\<close>.\<close>

definition badge_initial :: badge_state where
  "badge_initial = \<lparr> unreadCount = 0, hasNewNotifications = False \<rparr>"

text \<open>
  The success callback of \<^verbatim>\<open>onSnapshot\<close>. Its argument is \<^verbatim>\<open>doc.data()\<close>:
  \<open>None\<close> when the profile document does not exist, otherwise the profile's
  \<^verbatim>\<open>notificationData\<close> field, itself \<open>None\<close> when the profile has none
  (\<^verbatim>\<open>userData.notificationData || {}\<close>).
\<close>

definition onSnapshot :: "notificationData option option \<Rightarrow> badge_state \<Rightarrow> badge_state" where
  "onSnapshot userData st =
     (case userData of
        None \<Rightarrow> st
      | Some nd_field \<Rightarrow>
          (let notificationData =
                 (case nd_field of
                    None \<Rightarrow> \<lparr> nd_unreadCount = None, lastNotificationTime = None,
                               lastSeenTime = None \<rparr>
                  | Some nd \<Rightarrow> nd);
               unread = (case nd_unreadCount notificationData of None \<Rightarrow> 0 | Some n \<Rightarrow> n);
               st1 = st\<lparr> unreadCount := unread \<rparr>
           in case (lastNotificationTime notificationData, lastSeenTime notificationData) of
                (Some lnt, Some lst) \<Rightarrow> st1\<lparr> hasNewNotifications := (lnt > lst) \<rparr>
              | _ \<Rightarrow> if unread > 0 then st1\<lparr> hasNewNotifications := True \<rparr>
                     else st1\<lparr> hasNewNotifications := False \<rparr>))"

text \<open>
  What \<^verbatim>\<open>handlePress\<close> does to the outside: the navigation (the \<^verbatim>\<open>onPress\<close>
  property when one was given, the push of the notifications route otherwise) and the
  profile update with the new last-seen time and the unread count it writes.
\<close>

datatype badge_effect =
    CallOnPress
  | RouterPush jsstring
  | UpdateProfile jsstring int int

record badge_env =
  hasOnPress :: bool
  badge_currentUser :: "jsstring option"
  newDate :: int

text \<open>\<open>ok\<close> tells whether the awaited profile update resolves or rejects.\<close>

definition handlePress :: "badge_env \<Rightarrow> bool \<Rightarrow> badge_state \<Rightarrow> badge_state \<times> badge_effect list" where
  "handlePress env ok st =
     (let nav = (if hasOnPress env then [CallOnPress] else [RouterPush (js ''/notifications'')])
      in case badge_currentUser env of
           None \<Rightarrow> (st, nav)
         | Some uid \<Rightarrow>
             (if ok then (st\<lparr> hasNewNotifications := False \<rparr>, nav @ [UpdateProfile uid (newDate env) 0])
              else (st, nav @ [UpdateProfile uid (newDate env) 0])))"

section \<open>Conversation screen\<close>

subsection \<open>Data\<close>

text \<open>
  The object written by \<^verbatim>\<open>add\<close>, and the \<^verbatim>\<open>Message\<close> of the local list, which
  extends it by the identifier and the two optional edit fields.
\<close>

record message_data =
  senderId :: jsstring
  senderName :: jsstring
  receiverId :: jsstring
  receiverName :: jsstring
  content :: jsstring
  timestamp :: jsstring
  read :: bool

record message = message_data +
  msg_id :: jsstring
  edited :: "bool option"
  editedAt :: "jsstring option"

text \<open>
  A document of the \<^verbatim>\<open>messages\<close> collection: its identifier and its data, where the
  read flag and the edit fields may be missing.
\<close>

record message_doc =
  doc_id :: jsstring
  data_senderId :: jsstring
  data_senderName :: jsstring
  data_receiverId :: jsstring
  data_receiverName :: jsstring
  data_content :: jsstring
  data_timestamp :: jsstring
  data_read :: "bool option"
  data_edited :: "bool option"
  data_editedAt :: "jsstring option"

record user_profile =
  name :: "jsstring option"

datatype alert = SendFailed | DeleteConfirm message | DeleteFailed | EditFailed

record conv_state =
  messages :: "message list"
  newMessage :: jsstring
  loading :: bool
  sending :: bool
  userData :: "user_profile option"
  editingMessage :: "message option"
  editText :: jsstring
  showEditModal :: bool
  showActionSheet :: bool
  selectedMessage :: "message option"
  alertConfig :: "alert option"

text \<open>The initial values of the \<^verbatim>\<open>useState\<close> hooks.\<close>

definition conv_initial :: conv_state where
  "conv_initial =
     \<lparr> messages = [], newMessage = [], loading = True, sending = False, userData = None,
       editingMessage = None, editText = [], showEditModal = False, showActionSheet = False,
       selectedMessage = None, alertConfig = None \<rparr>"

text \<open>
  What a handler reads from outside the component: the signed-in user's identifier
  (\<^verbatim>\<open>auth().currentUser\<close>, \<open>None\<close> when nobody is signed in), the route
  parameters, and the clock (\<^verbatim>\<open>new Date().toISOString()\<close> and
  \<^verbatim>\<open>Date.now().toString()\<close>).
\<close>

record env =
  currentUser :: "jsstring option"
  otherUserId :: jsstring
  otherUserName :: jsstring
  nowISO :: jsstring
  dateNow :: jsstring

text \<open>
  The trace of a handler: each request sent to the store, in order, followed by its
  outcome once the handler has awaited it, and each update of the local message list.
\<close>

datatype store_call =
    Query jsstring jsstring
  | GetUser jsstring
  | Add message_data
  | MarkRead jsstring
  | UpdateContent jsstring jsstring jsstring
  | Delete jsstring

datatype event =
    Request store_call
  | Resolved
  | Rejected
  | AppendMessage message
  | SetMessages "message list"

definition outcome :: "bool \<Rightarrow> event" where
  "outcome ok = (if ok then Resolved else Rejected)"

fun requests :: "event list \<Rightarrow> store_call list" where
  "requests [] = []"
| "requests (Request c # es) = c # requests es"
| "requests (_ # es) = requests es"

subsection \<open>Loading\<close>

text \<open>
  The query of \<^verbatim>\<open>loadMessages\<close> over the contents of the collection:
  \<^verbatim>\<open>where('senderId', 'in', [userId, otherUserId])\<close>,
  \<^verbatim>\<open>where('receiverId', 'in', [userId, otherUserId])\<close>,
  \<^verbatim>\<open>orderBy('timestamp', 'asc')\<close>.
\<close>

definition messagesQuery :: "jsstring \<Rightarrow> jsstring \<Rightarrow> message_doc list \<Rightarrow> message_doc list" where
  "messagesQuery userId other coll =
     sort_key data_timestamp
       (filter (\<lambda>d. data_senderId d \<in> set [userId, other] \<and>
                     data_receiverId d \<in> set [userId, other]) coll)"

text \<open>
  The object pushed onto \<^verbatim>\<open>messagesList\<close>: \<^verbatim>\<open>read\<close> and \<^verbatim>\<open>edited\<close>
  default to false, an empty \<^verbatim>\<open>editedAt\<close> becomes undefined.
\<close>

definition toMessage :: "message_doc \<Rightarrow> message" where
  "toMessage d =
     \<lparr> senderId = data_senderId d,
       senderName = data_senderName d,
       receiverId = data_receiverId d,
       receiverName = data_receiverName d,
       content = data_content d,
       timestamp = data_timestamp d,
       read = (case data_read d of None \<Rightarrow> False | Some b \<Rightarrow> b),
       msg_id = doc_id d,
       edited = Some (case data_edited d of None \<Rightarrow> False | Some b \<Rightarrow> b),
       editedAt = (case data_editedAt d of
                     None \<Rightarrow> None
                   | Some t \<Rightarrow> if truthy t then Some t else None) \<rparr>"

text \<open>The test that keeps only the messages between the two users.\<close>

definition betweenUsers :: "jsstring \<Rightarrow> jsstring \<Rightarrow> message_doc \<Rightarrow> bool" where
  "betweenUsers userId other d \<longleftrightarrow>
     (data_senderId d = userId \<and> data_receiverId d = other) \<or>
     (data_senderId d = other \<and> data_receiverId d = userId)"

text \<open>
  The loop over \<^verbatim>\<open>messagesQuery.docs\<close>. Its state is \<^verbatim>\<open>messagesList\<close> and the
  trace. \<open>markOk\<close> tells for each document whether the update that marks it as read
  resolves; a rejection is caught inside the loop and the loop goes on.
\<close>

fun loadLoop ::
  "jsstring \<Rightarrow> jsstring \<Rightarrow> (jsstring \<Rightarrow> bool) \<Rightarrow> message_doc list \<Rightarrow>
   message list \<times> event list \<Rightarrow> message list \<times> event list" where
  "loadLoop userId other markOk [] acc = acc"
| "loadLoop userId other markOk (d # ds) (messagesList, tr) =
     (if betweenUsers userId other d then
        loadLoop userId other markOk ds
          (messagesList @ [toMessage d],
           if data_receiverId d = userId \<and> data_read d \<noteq> Some True
           then tr @ [Request (MarkRead (doc_id d)), outcome (markOk (doc_id d))]
           else tr)
      else loadLoop userId other markOk ds (messagesList, tr))"

text \<open>
  \<open>coll\<close> is what the collection holds when the query is answered, \<open>None\<close> when the
  query rejects: the rejection is caught and the local list is left as it was.
\<close>

definition loadMessages ::
  "env \<Rightarrow> jsstring \<Rightarrow> message_doc list option \<Rightarrow> (jsstring \<Rightarrow> bool) \<Rightarrow> conv_state \<Rightarrow>
   conv_state \<times> event list" where
  "loadMessages e userId coll markOk st =
     (case coll of
        None \<Rightarrow> (st, [Request (Query userId (otherUserId e)), Rejected])
      | Some c \<Rightarrow>
          (let (messagesList, tr) =
                 loadLoop userId (otherUserId e) markOk
                   (messagesQuery userId (otherUserId e) c)
                   ([], [Request (Query userId (otherUserId e)), Resolved])
           in (st\<lparr> messages := messagesList \<rparr>, tr @ [SetMessages messagesList])))"

text \<open>
  \<open>userDoc\<close> is the answer to the read of the profile: \<open>None\<close> when it rejects,
  \<open>Some None\<close> when the document does not exist.
\<close>

definition loadUserAndMessages ::
  "env \<Rightarrow> user_profile option option \<Rightarrow> message_doc list option \<Rightarrow> (jsstring \<Rightarrow> bool) \<Rightarrow>
   conv_state \<Rightarrow> conv_state \<times> event list" where
  "loadUserAndMessages e userDoc coll markOk st =
     (case currentUser e of
        None \<Rightarrow> (st\<lparr> loading := False \<rparr>, [])
      | Some uid \<Rightarrow>
          (case userDoc of
             None \<Rightarrow> (st\<lparr> loading := False \<rparr>, [Request (GetUser uid), Rejected])
           | Some found \<Rightarrow>
               (let st1 = (case found of None \<Rightarrow> st | Some p \<Rightarrow> st\<lparr> userData := Some p \<rparr>);
                    (st2, tr) = loadMessages e uid coll markOk st1
                in (st2\<lparr> loading := False \<rparr>, [Request (GetUser uid), Resolved] @ tr))))"

subsection \<open>Sending\<close>

text \<open>\<^verbatim>\<open>userData.name || 'Unknown'\<close>\<close>

definition nameOrUnknown :: "user_profile \<Rightarrow> jsstring" where
  "nameOrUnknown p =
     (case name p of None \<Rightarrow> js ''Unknown'' | Some n \<Rightarrow> if truthy n then n else js ''Unknown'')"

text \<open>
  \<open>ok\<close> tells whether the awaited \<^verbatim>\<open>add\<close> resolves. The statements after the
  \<^verbatim>\<open>await\<close> run only when it does; a rejection goes to the \<^verbatim>\<open>catch\<close> block.
  \<^verbatim>\<open>finally\<close> resets \<^verbatim>\<open>sending\<close> once the \<^verbatim>\<open>try\<close> block was entered.
\<close>

definition handleSendMessage :: "env \<Rightarrow> bool \<Rightarrow> conv_state \<Rightarrow> conv_state \<times> event list" where
  "handleSendMessage e ok st =
     (if \<not> truthy (trim (newMessage st)) then (st, [])
      else case userData st of
        None \<Rightarrow> (st, [])
      | Some profile \<Rightarrow>
          (case currentUser e of
             None \<Rightarrow> (st\<lparr> sending := False \<rparr>, [])
           | Some uid \<Rightarrow>
               (let messageData =
                      \<lparr> senderId = uid,
                        senderName = nameOrUnknown profile,
                        receiverId = otherUserId e,
                        receiverName = otherUserName e,
                        content = trim (newMessage st),
                        timestamp = nowISO e,
                        read = False \<rparr>;
                    newMessageObj =
                      \<lparr> senderId = uid,
                        senderName = nameOrUnknown profile,
                        receiverId = otherUserId e,
                        receiverName = otherUserName e,
                        content = trim (newMessage st),
                        timestamp = nowISO e,
                        read = False,
                        msg_id = dateNow e,
                        edited = None,
                        editedAt = None \<rparr>
                in if ok then
                     (st\<lparr> messages := messages st @ [newMessageObj], newMessage := [],
                          sending := False \<rparr>,
                      [Request (Add messageData), Resolved, AppendMessage newMessageObj])
                   else
                     (st\<lparr> alertConfig := Some SendFailed, sending := False \<rparr>,
                      [Request (Add messageData), Rejected]))))"

subsection \<open>Editing and deleting\<close>

definition handleLongPress :: "env \<Rightarrow> message \<Rightarrow> conv_state \<Rightarrow> conv_state" where
  "handleLongPress e m st =
     (case currentUser e of
        None \<Rightarrow> st
      | Some uid \<Rightarrow>
          if senderId m \<noteq> uid then st
          else st\<lparr> selectedMessage := Some m, showActionSheet := True \<rparr>)"

definition handleEditMessage :: "conv_state \<Rightarrow> conv_state" where
  "handleEditMessage st =
     (case selectedMessage st of
        None \<Rightarrow> st
      | Some m \<Rightarrow>
          st\<lparr> editingMessage := Some m, editText := content m, showEditModal := True,
              showActionSheet := False \<rparr>)"

text \<open>
  \<^verbatim>\<open>handleDeleteMessage\<close> only opens the confirmation. The two buttons of the
  confirmation close over the message that was selected when it was opened.
\<close>

definition handleDeleteMessage :: "conv_state \<Rightarrow> conv_state" where
  "handleDeleteMessage st =
     (case selectedMessage st of
        None \<Rightarrow> st
      | Some m \<Rightarrow> st\<lparr> alertConfig := Some (DeleteConfirm m) \<rparr>)"

text \<open>The \<^verbatim>\<open>onPress\<close> of the button "Delete"; \<open>ok\<close> is the outcome of the store's delete.\<close>

definition deleteOnPress :: "message \<Rightarrow> bool \<Rightarrow> conv_state \<Rightarrow> conv_state \<times> event list" where
  "deleteOnPress m ok st =
     (if ok then
        (st\<lparr> showActionSheet := False, selectedMessage := None, alertConfig := None \<rparr>,
         [Request (Delete (msg_id m)), Resolved])
      else
        (st\<lparr> alertConfig := Some DeleteFailed \<rparr>,
         [Request (Delete (msg_id m)), Rejected]))"

text \<open>The \<^verbatim>\<open>onPress\<close> of "Cancel" and of "OK", and \<^verbatim>\<open>onDismiss\<close>.\<close>

definition closeAlert :: "conv_state \<Rightarrow> conv_state" where
  "closeAlert st = st\<lparr> alertConfig := None \<rparr>"

definition handleSaveEdit :: "env \<Rightarrow> bool \<Rightarrow> conv_state \<Rightarrow> conv_state \<times> event list" where
  "handleSaveEdit e ok st =
     (case editingMessage st of
        None \<Rightarrow> (st, [])
      | Some m \<Rightarrow>
          if \<not> truthy (trim (editText st)) then (st, [])
          else if ok then
            (st\<lparr> showEditModal := False, editingMessage := None, editText := [] \<rparr>,
             [Request (UpdateContent (msg_id m) (trim (editText st)) (nowISO e)), Resolved])
          else
            (st\<lparr> alertConfig := Some EditFailed \<rparr>,
             [Request (UpdateContent (msg_id m) (trim (editText st)) (nowISO e)), Rejected]))"

definition handleCancelEdit :: "conv_state \<Rightarrow> conv_state" where
  "handleCancelEdit st = st\<lparr> showEditModal := False, editingMessage := None, editText := [] \<rparr>"

subsection \<open>The screen as a transition system\<close>

text \<open>
  The events the rendered screen reacts to, each bound to its handler as in the JSX. The
  answers of the store are part of the event. Every handler may run in every state: this
  includes all the sequences the screen allows, where a button is only there while its
  sheet, dialog or alert is shown.
\<close>

datatype action =
    Mount "user_profile option option" "message_doc list option" "jsstring \<Rightarrow> bool"
  | ChangeText jsstring
  | PressSend bool
  | LongPress message
  | CloseSheet
  | PressEdit
  | PressDelete
  | AlertCancel
  | AlertDelete bool
  | AlertDismiss
  | ChangeEditText jsstring
  | PressSave bool
  | PressCancelEdit

fun step :: "env \<Rightarrow> action \<Rightarrow> conv_state \<Rightarrow> conv_state \<times> event list" where
  "step e (Mount userDoc coll markOk) st = loadUserAndMessages e userDoc coll markOk st"
| "step e (ChangeText t) st = (st\<lparr> newMessage := t \<rparr>, [])"
| "step e (PressSend ok) st = handleSendMessage e ok st"
| "step e (LongPress m) st = (handleLongPress e m st, [])"
| "step e CloseSheet st = (st\<lparr> showActionSheet := False \<rparr>, [])"
| "step e PressEdit st = (handleEditMessage st, [])"
| "step e PressDelete st = (handleDeleteMessage st, [])"
| "step e AlertCancel st = (closeAlert st, [])"
| "step e (AlertDelete ok) st =
     (case alertConfig st of
        Some (DeleteConfirm m) \<Rightarrow> deleteOnPress m ok st
      | _ \<Rightarrow> (st, []))"
| "step e AlertDismiss st = (closeAlert st, [])"
| "step e (ChangeEditText t) st = (st\<lparr> editText := t \<rparr>, [])"
| "step e (PressSave ok) st = handleSaveEdit e ok st"
| "step e PressCancelEdit st = (handleCancelEdit st, [])"

fun run :: "env \<Rightarrow> action list \<Rightarrow> conv_state \<Rightarrow> conv_state \<times> event list" where
  "run e [] st = (st, [])"
| "run e (a # as) st =
     (let (st1, tr1) = step e a st;
          (st2, tr2) = run e as st1
      in (st2, tr1 @ tr2))"

subsection \<open>Ownership of the held messages\<close>

text \<open>
  The screen holds a message in three places: the selection of the action sheet, the
  message being edited, and the message the delete confirmation closes over.
  \<open>heldBy P st\<close> says that each of them, when set, is a message of \<open>P\<close>.
\<close>

definition heldBy :: "message set \<Rightarrow> conv_state \<Rightarrow> bool" where
  "heldBy P st \<longleftrightarrow>
     (case selectedMessage st of None \<Rightarrow> True | Some m \<Rightarrow> m \<in> P) \<and>
     (case editingMessage st of None \<Rightarrow> True | Some m \<Rightarrow> m \<in> P) \<and>
     (case alertConfig st of Some (DeleteConfirm m) \<Rightarrow> m \<in> P | _ \<Rightarrow> True)"

section \<open>Sample data\<close>

text \<open>
  A session of user \<open>u1\<close> in the conversation with \<open>u2\<close>, messages and documents
  with the fields that matter filled in, and the screen once the profile is loaded and a
  text is typed.
\<close>

definition sample_env :: env where
  "sample_env =
     \<lparr> currentUser = Some (js ''u1''), otherUserId = js ''u2'', otherUserName = js ''Bob'',
       nowISO = js ''2024-05-01T10:00:00.000Z'', dateNow = js ''1714557600000'' \<rparr>"

definition mk_message :: "jsstring \<Rightarrow> jsstring \<Rightarrow> jsstring \<Rightarrow> jsstring \<Rightarrow> jsstring \<Rightarrow> message" where
  "mk_message i s r c t =
     \<lparr> senderId = s, senderName = [], receiverId = r, receiverName = [], content = c,
       timestamp = t, read = False, msg_id = i, edited = None, editedAt = None \<rparr>"

definition mk_doc :: "jsstring \<Rightarrow> jsstring \<Rightarrow> jsstring \<Rightarrow> jsstring \<Rightarrow> jsstring \<Rightarrow> message_doc" where
  "mk_doc i s r c t =
     \<lparr> doc_id = i, data_senderId = s, data_senderName = [], data_receiverId = r,
       data_receiverName = [], data_content = c, data_timestamp = t, data_read = None,
       data_edited = None, data_editedAt = None \<rparr>"

definition typed_state :: "jsstring \<Rightarrow> conv_state" where
  "typed_state t =
     conv_initial\<lparr> loading := False, userData := Some \<lparr> name = Some (js ''Ann'') \<rparr>,
                   newMessage := t \<rparr>"

definition own_message :: message where
  "own_message = mk_message (js ''d2'') (js ''u1'') (js ''u2'') (js ''hey'') (js ''1'')"

definition foreign_message :: message where
  "foreign_message = mk_message (js ''d1'') (js ''u2'') (js ''u1'') (js ''yo'') (js ''3'')"

text \<open>
  A collection with a message in each direction, a message of \<open>u1\<close> to themselves
  (it passes both membership filters of the query) and a message from a third user.
\<close>

definition sample_docs :: "message_doc list" where
  "sample_docs =
     [mk_doc (js ''d1'') (js ''u2'') (js ''u1'') (js ''yo'') (js ''3''),
      mk_doc (js ''d2'') (js ''u1'') (js ''u2'') (js ''hey'') (js ''1''),
      mk_doc (js ''d3'') (js ''u1'') (js ''u1'') (js ''self'') (js ''2''),
      mk_doc (js ''d4'') (js ''u3'') (js ''u1'') (js ''third'') (js ''0'')]"

text \<open>The badge of user \<open>u1\<close> with five unread notifications shown as new.\<close>

definition sample_badge_env :: badge_env where
  "sample_badge_env = \<lparr> hasOnPress = False, badge_currentUser = Some (js ''u1''), newDate = 1000 \<rparr>"

definition five_unread :: badge_state where
  "five_unread = \<lparr> unreadCount = 5, hasNewNotifications = True \<rparr>"

text \<open>A profile that was seen at time 10 and never recorded a notification time.\<close>

definition seen_only :: "int \<Rightarrow> notificationData" where
  "seen_only n = \<lparr> nd_unreadCount = Some n, lastNotificationTime = None, lastSeenTime = Some 10 \<rparr>"

section \<open>Properties of the analytics aggregation\<close>

lemma ratingLoop_num:
  "d r = Some (Num n) \<Longrightarrow>
   fst (ratingLoop fs (d, t)) r = Some (Num (n + length (filter (\<lambda>f. rating f = r) fs)))"
proof (induction fs arbitrary: d t n)
  case Nil
  then show ?case by simp
next
  case (Cons f fs)
  show ?case
  proof (cases "rating f = r")
    case True
    with Cons.prems have "increment d (rating f) r = Some (Num (Suc n))"
      by (auto simp: increment_def)
    then have "fst (ratingLoop fs (increment d (rating f), dadd t (toDouble (rating f)))) r =
                 Some (Num (Suc n + length (filter (\<lambda>f. rating f = r) fs)))"
      by (rule Cons.IH)
    with True show ?thesis by simp
  next
    case False
    with Cons.prems have "increment d (rating f) r = Some (Num n)"
      by (auto simp: increment_def)
    then have "fst (ratingLoop fs (increment d (rating f), dadd t (toDouble (rating f)))) r =
                 Some (Num (n + length (filter (\<lambda>f. rating f = r) fs)))"
      by (rule Cons.IH)
    with False show ?thesis by simp
  qed
qed

lemma ratingLoop_nan:
  "d r = Some NaN \<Longrightarrow> fst (ratingLoop fs (d, t)) r = Some NaN"
proof (induction fs arbitrary: d t)
  case Nil
  then show ?case by simp
next
  case (Cons f fs)
  from Cons.prems have "increment d (rating f) r = Some NaN"
    by (auto simp: increment_def)
  then have "fst (ratingLoop fs (increment d (rating f), dadd t (toDouble (rating f)))) r = Some NaN"
    by (rule Cons.IH)
  then show ?case by simp
qed

lemma ratingLoop_missing:
  "d r = None \<Longrightarrow>
   fst (ratingLoop fs (d, t)) r = (if r \<in> rating ` set fs then Some NaN else None)"
proof (induction fs arbitrary: d t)
  case Nil
  then show ?case by simp
next
  case (Cons f fs)
  show ?case
  proof (cases "rating f = r")
    case True
    with Cons.prems have "increment d (rating f) r = Some NaN"
      by (auto simp: increment_def)
    then have "fst (ratingLoop fs (increment d (rating f), dadd t (toDouble (rating f)))) r = Some NaN"
      by (rule ratingLoop_nan)
    with True show ?thesis by simp
  next
    case False
    with Cons.prems have "increment d (rating f) r = None"
      by (auto simp: increment_def)
    then have "fst (ratingLoop fs (increment d (rating f), dadd t (toDouble (rating f)))) r =
                 (if r \<in> rating ` set fs then Some NaN else None)"
      by (rule Cons.IH)
    with False show ?thesis by auto
  qed
qed

lemma initialDistribution_apply:
  "initialDistribution r = (if r \<in> {1..5} then Some (Num 0) else None)"
  by (auto simp: initialDistribution_def)

lemma ratingDistribution_calc:
  "ratingDistribution (calculateAnalytics fbs svs) =
     fst (ratingLoop fbs (initialDistribution, Finite 0))"
  by (simp add: calculateAnalytics_def split: prod.splits)


lemma count_partition:
  "\<forall>f\<in>set fbs. rating f \<in> {1..5} \<Longrightarrow>
   length (filter (\<lambda>f. rating f = 1) fbs) + length (filter (\<lambda>f. rating f = 2) fbs) +
   length (filter (\<lambda>f. rating f = 3) fbs) + length (filter (\<lambda>f. rating f = 4) fbs) +
   length (filter (\<lambda>f. rating f = 5) fbs) = length fbs"
proof (induction fbs)
  case Nil
  then show ?case by simp
next
  case (Cons f fbs)
  then have "rating f = 1 \<or> rating f = 2 \<or> rating f = 3 \<or> rating f = 4 \<or> rating f = 5"
    by (simp) arith
  with Cons show ?case by auto
qed

subsection \<open>Whole numbers up to \<open>2 ^ 53\<close> are doubles\<close>

















text \<open>
  C10. When every feedback record has its rating in 1..5, each of the five counters is a
  natural number, namely the number of records with that rating, and the five counters add
  up to the number of feedback records. A record whose rating is outside 1..5 makes the
  increment read a key that was never initialised, and the counter stored under that key
  is NaN.
\<close>

theorem rating_distribution_precondition:
  "((\<forall>f\<in>set fbs. rating f \<in> {1..5}) \<longrightarrow>
      (\<forall>r\<in>{1..5}. ratingDistribution (calculateAnalytics fbs svs) r =
                      Some (Num (length (filter (\<lambda>f. rating f = r) fbs)))) \<and>
      length (filter (\<lambda>f. rating f = 1) fbs) + length (filter (\<lambda>f. rating f = 2) fbs) +
      length (filter (\<lambda>f. rating f = 3) fbs) + length (filter (\<lambda>f. rating f = 4) fbs) +
      length (filter (\<lambda>f. rating f = 5) fbs) = length fbs) \<and>
   (\<forall>f\<in>set fbs. rating f \<notin> {1..5} \<longrightarrow>
      ratingDistribution (calculateAnalytics fbs svs) (rating f) = Some NaN)"
proof (intro conjI impI ballI)
  fix r :: int
  assume "r \<in> {1..5}"
  then have "initialDistribution r = Some (Num 0)"
    by (simp add: initialDistribution_apply)
  then show "ratingDistribution (calculateAnalytics fbs svs) r =
               Some (Num (length (filter (\<lambda>f. rating f = r) fbs)))"
    by (simp add: ratingDistribution_calc ratingLoop_num)
next
  assume "\<forall>f\<in>set fbs. rating f \<in> {1..5}"
  then show "length (filter (\<lambda>f. rating f = 1) fbs) + length (filter (\<lambda>f. rating f = 2) fbs) +
      length (filter (\<lambda>f. rating f = 3) fbs) + length (filter (\<lambda>f. rating f = 4) fbs) +
      length (filter (\<lambda>f. rating f = 5) fbs) = length fbs"
    by (rule count_partition)
next
  fix f
  assume f: "f \<in> set fbs" and out: "rating f \<notin> {1..5}"
  from out have "initialDistribution (rating f) = None"
    by (simp add: initialDistribution_apply)
  then have "fst (ratingLoop fbs (initialDistribution, Finite 0)) (rating f) =
               (if rating f \<in> rating ` set fbs then Some NaN else None)"
    by (rule ratingLoop_missing)
  with f show "ratingDistribution (calculateAnalytics fbs svs) (rating f) = Some NaN"
    by (simp add: ratingDistribution_calc)
qed

theorem rating_distribution_precondition_witness:
  "rating (rated 6) \<notin> {1..5} \<and>
   ratingDistribution (calculateAnalytics [rated 5, rated 6] []) (rating (rated 6)) = Some NaN \<and>
   ratingDistribution (calculateAnalytics [rated 5, rated 6] []) 5 = Some (Num 1) \<and>
   list_all (\<lambda>f. rating f \<in> {1..5}) [rated 4, rated 4, rated 2] \<and>
   ratingDistribution (calculateAnalytics [rated 4, rated 4, rated 2] []) 4 = Some (Num 2)"
proof -
  have out: "rating (rated 6) \<notin> {1..5}"
    by (simp add: rated_def)
  have mem: "rated 6 \<in> set [rated 5, rated 6]"
    by simp
  from rating_distribution_precondition [of "[rated 5, rated 6]" "[]"]
  have "\<forall>f\<in>set [rated 5, rated 6]. rating f \<notin> {1..5} \<longrightarrow>
          ratingDistribution (calculateAnalytics [rated 5, rated 6] []) (rating f) = Some NaN"
    by (rule conjunct2)
  from bspec [OF this mem] out
  have nan: "ratingDistribution (calculateAnalytics [rated 5, rated 6] []) (rating (rated 6)) = Some NaN"
    by blast
  have five: "ratingDistribution (calculateAnalytics [rated 5, rated 6] []) 5 = Some (Num 1)"
    by (simp add: ratingDistribution_calc initialDistribution_def increment_def rated_def)
  have pre: "\<forall>f\<in>set [rated 4, rated 4, rated 2]. rating f \<in> {1..5}"
    by (simp add: rated_def)
  have four: "(4::int) \<in> {1..5}" by simp
  from rating_distribution_precondition [of "[rated 4, rated 4, rated 2]" "[]"] pre
  have "\<forall>r\<in>{1..5}. ratingDistribution (calculateAnalytics [rated 4, rated 4, rated 2] []) r =
          Some (Num (length (filter (\<lambda>f. rating f = r) [rated 4, rated 4, rated 2])))"
    by blast
  from bspec [OF this four]
  have cnt: "ratingDistribution (calculateAnalytics [rated 4, rated 4, rated 2] []) 4 = Some (Num 2)"
    by (simp add: rated_def)
  from out nan five pre cnt show ?thesis
    by (simp add: list_all_iff)
qed

section \<open>Properties of the notification badge\<close>

text \<open>
  The claim C5 reads the derivation of the flag as a three-way choice and concludes that the
  flag is false whenever the last-seen time is present and the notification time is absent.
  The handler has two branches only: with a last-seen time, no notification time and three
  unread notifications the flag is set.
\<close>

theorem hasNew_with_seen_time_only:
  "lastSeenTime (seen_only 3) \<noteq> None \<and> lastNotificationTime (seen_only 3) = None \<and>
   hasNewNotifications (onSnapshot (Some (Some (seen_only 3))) badge_initial) = True"
  by (simp add: onSnapshot_def seen_only_def Let_def)

text \<open>
  C5, amended. For every update that delivers an existing profile, the flag is
  \<open>lastNotificationTime > lastSeenTime\<close> when both times are present, and
  \<open>unreadCount > 0\<close> whenever one of them is absent, whichever it is; the local counter is
  the stored counter, 0 when there is none. A profile without notification data gives counter
  0 and a cleared flag, and an update without profile data changes nothing.
\<close>

theorem hasNew_derivation:
  "(lastNotificationTime nd = Some a \<and> lastSeenTime nd = Some b \<longrightarrow>
      hasNewNotifications (onSnapshot (Some (Some nd)) st) = (a > b)) \<and>
   (lastNotificationTime nd = None \<or> lastSeenTime nd = None \<longrightarrow>
      hasNewNotifications (onSnapshot (Some (Some nd)) st) =
        ((case nd_unreadCount nd of None \<Rightarrow> 0 | Some n \<Rightarrow> n) > 0)) \<and>
   unreadCount (onSnapshot (Some (Some nd)) st) =
     (case nd_unreadCount nd of None \<Rightarrow> 0 | Some n \<Rightarrow> n) \<and>
   onSnapshot (Some None) st = \<lparr> unreadCount = 0, hasNewNotifications = False \<rparr> \<and>
   onSnapshot None st = st"
  by (auto simp: onSnapshot_def Let_def split: option.splits)

theorem hasNew_derivation_witness:
  "hasNewNotifications
     (onSnapshot (Some (Some \<lparr> nd_unreadCount = Some 0, lastNotificationTime = Some 20,
                                lastSeenTime = Some 10 \<rparr>)) badge_initial) = True \<and>
   hasNewNotifications
     (onSnapshot (Some (Some \<lparr> nd_unreadCount = Some 2, lastNotificationTime = Some 20,
                                lastSeenTime = None \<rparr>)) badge_initial) = True \<and>
   hasNewNotifications (onSnapshot (Some (Some (seen_only 0))) badge_initial) = False"
  using hasNew_derivation [of "\<lparr> nd_unreadCount = Some 0, lastNotificationTime = Some 20,
                                  lastSeenTime = Some 10 \<rparr>" 20 10 badge_initial]
        hasNew_derivation [of "\<lparr> nd_unreadCount = Some 2, lastNotificationTime = Some 20,
                                  lastSeenTime = None \<rparr>" 0 0 badge_initial]
        hasNew_derivation [of "seen_only 0" 0 0 badge_initial]
  by (simp add: seen_only_def)

text \<open>
  The claim C4 has the local counter at 0 after the seen action, for every prior state.
  \<^verbatim>\<open>handlePress\<close> never sets the local counter: with five unread notifications shown, it
  still shows five when the handler returns. When the profile update rejects, the flag is
  not cleared either.
\<close>

theorem seen_keeps_local_unreadCount:
  "unreadCount (fst (handlePress sample_badge_env True five_unread)) = 5 \<and>
   hasNewNotifications (fst (handlePress sample_badge_env False five_unread)) = True"
  by (simp add: handlePress_def sample_badge_env_def five_unread_def)

text \<open>
  C4, amended. When a user is signed in and the profile update resolves, the seen action
  clears the local flag itself, without any delivery of the subscription, and writes the
  last-seen time and the counter 0 to the store. It leaves the local counter as it was: the
  local counter becomes 0 when the subscription delivers the profile that was written.
\<close>

theorem seen_clears_hasNew_on_success:
  assumes "badge_currentUser env = Some uid"
  shows "hasNewNotifications (fst (handlePress env True st)) = False \<and>
         unreadCount (fst (handlePress env True st)) = unreadCount st \<and>
         UpdateProfile uid (newDate env) 0 \<in> set (snd (handlePress env True st)) \<and>
         unreadCount
           (onSnapshot (Some (Some \<lparr> nd_unreadCount = Some 0, lastNotificationTime = lnt,
                                      lastSeenTime = Some (newDate env) \<rparr>))
              (fst (handlePress env True st))) = 0"
  using assms by (simp add: handlePress_def onSnapshot_def Let_def split: option.splits)

theorem seen_clears_hasNew_on_success_witness:
  "badge_currentUser sample_badge_env = Some (js ''u1'') \<and>
   hasNewNotifications (fst (handlePress sample_badge_env True five_unread)) = False \<and>
   unreadCount (fst (handlePress sample_badge_env True five_unread)) = 5 \<and>
   UpdateProfile (js ''u1'') 1000 0 \<in> set (snd (handlePress sample_badge_env True five_unread))"
proof -
  have user: "badge_currentUser sample_badge_env = Some (js ''u1'')"
    by (simp add: sample_badge_env_def)
  have now: "newDate sample_badge_env = 1000"
    by (simp add: sample_badge_env_def)
  have five: "unreadCount five_unread = 5"
    by (simp add: five_unread_def)
  from seen_clears_hasNew_on_success [OF user, of five_unread None] user
  show ?thesis
    unfolding now five by blast
qed

section \<open>Properties of sending\<close>

lemma js_simps [simp]: "js [] = []" "js (c # cs) = of_nat (of_char c) # js cs"
  by (simp_all add: js_def)

text \<open>Trimming leaves nothing exactly when every code unit is white space.\<close>

lemma trim_empty_iff: "trim s = [] \<longleftrightarrow> (\<forall>c\<in>set s. isWhiteSpace c)"
proof
  assume "trim s = []"
  then have "\<forall>c\<in>set (dropWhile isWhiteSpace s). isWhiteSpace c"
    by (simp add: trim_def)
  then have "dropWhile isWhiteSpace s = []"
    using hd_dropWhile [of isWhiteSpace s] hd_in_set [of "dropWhile isWhiteSpace s"] by blast
  then show "\<forall>c\<in>set s. isWhiteSpace c"
    by simp
next
  assume "\<forall>c\<in>set s. isWhiteSpace c"
  then show "trim s = []"
    by (auto simp: trim_def dest: set_dropWhileD)
qed

lemma nonblank_trim: "\<exists>c\<in>set s. \<not> isWhiteSpace c \<Longrightarrow> truthy (trim s)"
  by (auto simp: truthy_def trim_empty_iff)

lemmas send_sample_defs =
  handleSendMessage_def typed_state_def conv_initial_def sample_env_def trim_def
  isWhiteSpace_def truthy_def Let_def

text \<open>
  C7. For an empty text and for a text of white space only, \<^verbatim>\<open>handleSendMessage\<close> and
  \<^verbatim>\<open>handleSaveEdit\<close> do nothing: no request goes to the store and the whole state of the
  screen is what it was.
\<close>

theorem blank_text_is_noop:
  "((\<forall>c\<in>set (newMessage st). isWhiteSpace c) \<longrightarrow> handleSendMessage e ok st = (st, [])) \<and>
   ((\<forall>c\<in>set (editText st). isWhiteSpace c) \<longrightarrow> handleSaveEdit e ok st = (st, []))"
  by (simp add: handleSendMessage_def handleSaveEdit_def truthy_def trim_empty_iff
        split: option.splits)

theorem blank_text_is_noop_witness:
  "list_all isWhiteSpace (js '' '' @ [0x3000, 0x000A]) \<and>
   handleSendMessage sample_env True (typed_state (js '' '' @ [0x3000, 0x000A])) =
     (typed_state (js '' '' @ [0x3000, 0x000A]), []) \<and>
   handleSaveEdit sample_env True
     ((typed_state [])\<lparr> editingMessage := Some own_message, editText := js ''  '',
                        showEditModal := True \<rparr>) =
     ((typed_state [])\<lparr> editingMessage := Some own_message, editText := js ''  '',
                        showEditModal := True \<rparr>, [])"
proof -
  let ?sending = "typed_state (js '' '' @ [0x3000, 0x000A])"
  let ?editing = "(typed_state [])\<lparr> editingMessage := Some own_message, editText := js ''  '',
                                   showEditModal := True \<rparr>"
  have blank1: "\<forall>c\<in>set (newMessage ?sending). isWhiteSpace c"
    by (simp add: typed_state_def isWhiteSpace_def)
  have blank2: "\<forall>c\<in>set (editText ?editing). isWhiteSpace c"
    by (simp add: isWhiteSpace_def)
  have "list_all isWhiteSpace (js '' '' @ [0x3000, 0x000A])"
    by (simp add: isWhiteSpace_def)
  with blank_text_is_noop [of ?sending sample_env True] blank1
       blank_text_is_noop [of ?editing sample_env True] blank2
  show ?thesis by blast
qed

text \<open>
  The claim C1 promises the new entry for every text that is not blank once the profile is
  loaded. The entry is appended after the awaited \<^verbatim>\<open>add\<close>, so a rejected write leaves the
  list as it was, although the create call was issued.
\<close>

theorem send_rejected_appends_nothing:
  "trim (newMessage (typed_state (js ''hi''))) = js ''hi'' \<and>
   userData (typed_state (js ''hi'')) \<noteq> None \<and>
   messages (fst (handleSendMessage sample_env False (typed_state (js ''hi'')))) =
     messages (typed_state (js ''hi'')) \<and>
   length (requests (snd (handleSendMessage sample_env False (typed_state (js ''hi''))))) = 1"
  by (simp add: send_sample_defs)

text \<open>
  C1, amended. For every text with a character that is not white space, a loaded profile, a
  signed-in user and a create call that the store accepts, \<^verbatim>\<open>handleSendMessage\<close> appends
  exactly one entry to the end of the local list and issues exactly one request, a create
  call; the entry and the created record both carry the trimmed text and a false read flag.
\<close>

theorem send_appends_one_when_store_accepts:
  assumes "\<exists>c\<in>set (newMessage st). \<not> isWhiteSpace c"
      and "userData st = Some p"
      and "currentUser e = Some uid"
  shows "\<exists>m md. messages (fst (handleSendMessage e True st)) = messages st @ [m] \<and>
                content m = trim (newMessage st) \<and> read m = False \<and>
                requests (snd (handleSendMessage e True st)) = [Add md] \<and>
                content md = trim (newMessage st) \<and> read md = False"
proof -
  from assms(1) have "truthy (trim (newMessage st))"
    by (rule nonblank_trim)
  with assms(2,3) show ?thesis
    by (simp add: handleSendMessage_def Let_def)
qed

theorem send_appends_one_when_store_accepts_witness:
  "(\<exists>c\<in>set (newMessage (typed_state (js '' hi ''))). \<not> isWhiteSpace c) \<and>
   (\<exists>m md. messages (fst (handleSendMessage sample_env True (typed_state (js '' hi '')))) =
              messages (typed_state (js '' hi '')) @ [m] \<and>
            content m = js ''hi'' \<and> read m = False \<and>
            requests (snd (handleSendMessage sample_env True (typed_state (js '' hi '')))) =
              [Add md] \<and>
            content md = js ''hi'' \<and> read md = False)"
proof -
  have nonblank: "\<exists>c\<in>set (newMessage (typed_state (js '' hi ''))). \<not> isWhiteSpace c"
    by (simp add: typed_state_def isWhiteSpace_def)
  have profile: "userData (typed_state (js '' hi '')) = Some \<lparr> name = Some (js ''Ann'') \<rparr>"
    by (simp add: typed_state_def)
  have user: "currentUser sample_env = Some (js ''u1'')"
    by (simp add: sample_env_def)
  have trimmed: "trim (newMessage (typed_state (js '' hi ''))) = js ''hi''"
    by (simp add: typed_state_def trim_def isWhiteSpace_def)
  from send_appends_one_when_store_accepts [OF nonblank profile user] nonblank
  show ?thesis
    unfolding trimmed by blast
qed

text \<open>
  The claim C6 places the local append before the store's confirmation. In the trace of a
  send that the store accepts, the append is the third event, after the request and its
  resolution; in the trace of a send that the store rejects there is no append at all, and
  the list stays empty.
\<close>

theorem append_follows_confirmation:
  "(case snd (handleSendMessage sample_env True (typed_state (js ''hi''))) of
      [Request (Add md), Resolved, AppendMessage m] \<Rightarrow>
        content md = js ''hi'' \<and> content m = js ''hi''
    | _ \<Rightarrow> False) \<and>
   length (snd (handleSendMessage sample_env False (typed_state (js ''hi'')))) = 2 \<and>
   snd (handleSendMessage sample_env False (typed_state (js ''hi''))) ! 1 = Rejected \<and>
   messages (fst (handleSendMessage sample_env False (typed_state (js ''hi'')))) = []"
  by (simp add: send_sample_defs)

text \<open>
  C6, amended. In the effect sequence of send, the local append of the synthesized copy
  comes after the store has confirmed the create call: a trace with an append is the request,
  its resolution and then the append. When the store rejects the create call, the local list
  is left as it was.
\<close>

theorem append_only_after_store_confirms:
  "(\<forall>m. AppendMessage m \<in> set (snd (handleSendMessage e ok st)) \<longrightarrow>
        ok \<and> (\<exists>md. snd (handleSendMessage e ok st) =
                      [Request (Add md), Resolved, AppendMessage m])) \<and>
   (\<not> ok \<longrightarrow> messages (fst (handleSendMessage e ok st)) = messages st)"
  by (auto simp: handleSendMessage_def Let_def split: option.splits)

theorem append_only_after_store_confirms_witness:
  "\<exists>m. AppendMessage m \<in> set (snd (handleSendMessage sample_env True (typed_state (js ''hi'')))) \<and>
       (\<exists>md. snd (handleSendMessage sample_env True (typed_state (js ''hi''))) =
               [Request (Add md), Resolved, AppendMessage m])"
proof -
  let ?tr = "snd (handleSendMessage sample_env True (typed_state (js ''hi'')))"
  have "\<exists>m. AppendMessage m \<in> set ?tr"
    by (simp add: send_sample_defs)
  then obtain m where m: "AppendMessage m \<in> set ?tr" ..
  with append_only_after_store_confirms [of sample_env True "typed_state (js ''hi'')"]
  have "\<exists>md. ?tr = [Request (Add md), Resolved, AppendMessage m]"
    by blast
  with m show ?thesis by blast
qed

section \<open>Properties of loading\<close>

lemma loadLoop_fst:
  "fst (loadLoop u other mk ds (ml, tr)) = ml @ map toMessage (filter (betweenUsers u other) ds)"
  by (induction ds arbitrary: ml tr) simp_all

lemma toMessage_fields:
  "senderId (toMessage d) = data_senderId d"
  "receiverId (toMessage d) = data_receiverId d"
  "timestamp (toMessage d) = data_timestamp d"
  by (simp_all add: toMessage_def)

text \<open>The local list after a query that was answered: the documents of the exact pair, in
  the order of the answer.\<close>

lemma messages_loadMessages:
  "messages (fst (loadMessages e u (Some coll) mk st)) =
     map toMessage (filter (betweenUsers u (otherUserId e)) (messagesQuery u (otherUserId e) coll))"
  by (simp add: loadMessages_def split_beta loadLoop_fst)

lemma sorted_messagesQuery: "sorted (map data_timestamp (messagesQuery u other coll))"
  by (simp add: messagesQuery_def)

lemmas load_sample_defs =
  messages_loadMessages messagesQuery_def sample_docs_def sample_env_def mk_doc_def
  betweenUsers_def toMessage_def

text \<open>
  The claim C2 holds of the list after every load. The load runs again whenever the other
  user changes, and a query that rejects is caught without touching the list: after the
  conversation with \<open>u2\<close> was loaded, a load for \<open>u3\<close> whose query rejects leaves the
  messages exchanged with \<open>u2\<close> in the list.
\<close>

theorem rejected_load_keeps_other_conversation:
  "toMessage (mk_doc (js ''d2'') (js ''u1'') (js ''u2'') (js ''hey'') (js ''1'')) \<in>
     set (messages (fst (loadMessages (sample_env\<lparr> otherUserId := js ''u3'' \<rparr>) (js ''u1'') None
                           (\<lambda>_. True)
                           (fst (loadMessages sample_env (js ''u1'') (Some sample_docs)
                                   (\<lambda>_. True) conv_initial))))) \<and>
   {senderId (toMessage (mk_doc (js ''d2'') (js ''u1'') (js ''u2'') (js ''hey'') (js ''1''))),
    receiverId (toMessage (mk_doc (js ''d2'') (js ''u1'') (js ''u2'') (js ''hey'') (js ''1'')))} \<noteq>
     {js ''u1'', otherUserId (sample_env\<lparr> otherUserId := js ''u3'' \<rparr>)}"
  by (simp add: loadMessages_def [of _ _ None] load_sample_defs doubleton_eq_iff)

text \<open>
  C2, amended. After \<^verbatim>\<open>loadMessages\<close> with an answered query, every message of the local
  list has sender and receiver equal, as an unordered pair, to the current user and the other
  user, whatever the collection holds, and the list is in non-decreasing order of timestamp.
  When the query rejects, the list is the one from before the load.
\<close>

theorem load_keeps_exact_pair_in_order:
  "(\<forall>m\<in>set (messages (fst (loadMessages e uid (Some coll) markOk st))).
      {senderId m, receiverId m} = {uid, otherUserId e}) \<and>
   sorted (map timestamp (messages (fst (loadMessages e uid (Some coll) markOk st)))) \<and>
   messages (fst (loadMessages e uid None markOk st)) = messages st"
proof (intro conjI ballI)
  fix m
  assume "m \<in> set (messages (fst (loadMessages e uid (Some coll) markOk st)))"
  then obtain d where "m = toMessage d" and "betweenUsers uid (otherUserId e) d"
    by (auto simp: messages_loadMessages)
  then show "{senderId m, receiverId m} = {uid, otherUserId e}"
    by (auto simp: betweenUsers_def toMessage_fields)
next
  have "sorted (map data_timestamp
          (filter (betweenUsers uid (otherUserId e)) (messagesQuery uid (otherUserId e) coll)))"
    by (rule sorted_filter) (rule sorted_messagesQuery)
  then show "sorted (map timestamp (messages (fst (loadMessages e uid (Some coll) markOk st))))"
    by (simp add: messages_loadMessages comp_def toMessage_fields)
next
  show "messages (fst (loadMessages e uid None markOk st)) = messages st"
    by (simp add: loadMessages_def)
qed

theorem load_keeps_exact_pair_in_order_witness:
  "toMessage (mk_doc (js ''d1'') (js ''u2'') (js ''u1'') (js ''yo'') (js ''3'')) \<in>
     set (messages (fst (loadMessages sample_env (js ''u1'') (Some sample_docs) (\<lambda>_. True)
                           conv_initial))) \<and>
   {js ''u2'', js ''u1''} = {js ''u1'', otherUserId sample_env} \<and>
   map msg_id (messages (fst (loadMessages sample_env (js ''u1'') (Some sample_docs) (\<lambda>_. True)
                                conv_initial))) = [js ''d2'', js ''d1''] \<and>
   map timestamp (messages (fst (loadMessages sample_env (js ''u1'') (Some sample_docs)
                                   (\<lambda>_. True) conv_initial))) = [js ''1'', js ''3'']"
proof -
  let ?ms = "messages (fst (loadMessages sample_env (js ''u1'') (Some sample_docs) (\<lambda>_. True)
                              conv_initial))"
  let ?m = "toMessage (mk_doc (js ''d1'') (js ''u2'') (js ''u1'') (js ''yo'') (js ''3''))"
  have mem: "?m \<in> set ?ms"
    by (simp add: load_sample_defs)
  from load_keeps_exact_pair_in_order
         [of sample_env "js ''u1''" sample_docs "\<lambda>_. True" conv_initial]
  have "\<forall>m\<in>set ?ms. {senderId m, receiverId m} = {js ''u1'', otherUserId sample_env}"
    by (rule conjunct1)
  from bspec [OF this mem]
  have pair: "{js ''u2'', js ''u1''} = {js ''u1'', otherUserId sample_env}"
    by (simp add: toMessage_def mk_doc_def)
  have ids: "map msg_id ?ms = [js ''d2'', js ''d1'']"
    by (simp add: load_sample_defs)
  have ts: "map timestamp ?ms = [js ''1'', js ''3'']"
    by (simp add: load_sample_defs)
  from mem pair ids ts show ?thesis by blast
qed

section \<open>Properties of deleting\<close>

text \<open>The confirmed delete never touches the local list, whatever the store answers.\<close>

lemma deleteOnPress_messages: "messages (fst (deleteOnPress m ok st)) = messages st"
  by (simp add: deleteOnPress_def)

text \<open>
  C3. The claim has the deleted message removed from the local list. On the screen of user
  \<open>u1\<close> showing an own and a foreign message, a long press on the own message, the
  delete action and the confirmed delete, answered by the store with success, issue exactly
  one delete call keyed by the identifier of that message, and the local list still holds
  both messages.
\<close>

theorem delete_leaves_message_listed:
  "requests (snd (run sample_env [LongPress own_message, PressDelete, AlertDelete True]
                    ((typed_state [])\<lparr> messages := [own_message, foreign_message] \<rparr>))) =
     [Delete (msg_id own_message)] \<and>
   messages (fst (run sample_env [LongPress own_message, PressDelete, AlertDelete True]
                    ((typed_state [])\<lparr> messages := [own_message, foreign_message] \<rparr>))) =
     [own_message, foreign_message]"
  by (simp add: handleLongPress_def handleDeleteMessage_def deleteOnPress_def sample_env_def
        own_message_def mk_message_def typed_state_def conv_initial_def)

section \<open>Properties of editing\<close>

text \<open>
  Loading and sending issue no content update and leave the held messages alone; every
  handler keeps the held messages inside the set they came from, and only a long press
  that passes the sender check adds a message to it.
\<close>

lemma loadLoop_no_edit:
  "Request (UpdateContent i c t) \<notin> set tr \<Longrightarrow>
   Request (UpdateContent i c t) \<notin> set (snd (loadLoop u other mk ds (ml, tr)))"
  by (induction ds arbitrary: ml tr) (simp_all add: outcome_def)

lemma loadMessages_no_edit:
  "Request (UpdateContent i c t) \<notin> set (snd (loadMessages e u coll mk st))"
proof (cases coll)
  case None
  then show ?thesis by (simp add: loadMessages_def)
next
  case (Some docs)
  have "Request (UpdateContent i c t) \<notin>
          set (snd (loadLoop u (otherUserId e) mk (messagesQuery u (otherUserId e) docs)
                      ([], [Request (Query u (otherUserId e)), Resolved])))"
    by (rule loadLoop_no_edit) simp
  with Some show ?thesis
    by (simp add: loadMessages_def split_beta)
qed

lemma loadMessages_keeps:
  "selectedMessage (fst (loadMessages e u coll mk st)) = selectedMessage st"
  "editingMessage (fst (loadMessages e u coll mk st)) = editingMessage st"
  "alertConfig (fst (loadMessages e u coll mk st)) = alertConfig st"
  by (simp_all add: loadMessages_def split_beta split: option.splits)

lemma loadUserAndMessages_keeps:
  "selectedMessage (fst (loadUserAndMessages e ud coll mk st)) = selectedMessage st"
  "editingMessage (fst (loadUserAndMessages e ud coll mk st)) = editingMessage st"
  "alertConfig (fst (loadUserAndMessages e ud coll mk st)) = alertConfig st"
  by (simp_all add: loadUserAndMessages_def Let_def split_beta loadMessages_keeps
        split: option.splits)

lemma loadUserAndMessages_no_edit:
  "Request (UpdateContent i c t) \<notin> set (snd (loadUserAndMessages e ud coll mk st))"
  by (simp add: loadUserAndMessages_def Let_def split_beta loadMessages_no_edit
        split: option.splits)

lemma heldBy_load:
  "heldBy P st \<Longrightarrow> heldBy P (fst (loadUserAndMessages e ud coll mk st))"
  by (simp add: heldBy_def loadUserAndMessages_keeps)

lemma heldBy_send: "heldBy P st \<Longrightarrow> heldBy P (fst (handleSendMessage e ok st))"
  by (auto simp: heldBy_def handleSendMessage_def Let_def split: option.splits alert.splits)

lemma send_no_edit:
  "Request (UpdateContent i c t) \<notin> set (snd (handleSendMessage e ok st))"
  by (simp add: handleSendMessage_def Let_def split: option.splits)

lemma heldBy_longPress:
  "heldBy P st \<Longrightarrow>
   heldBy (P \<union> {m'. m' = m \<and> currentUser e = Some (senderId m')}) (handleLongPress e m st)"
  by (auto simp: heldBy_def handleLongPress_def split: option.splits alert.splits)

lemma heldBy_edit: "heldBy P st \<Longrightarrow> heldBy P (handleEditMessage st)"
  by (auto simp: heldBy_def handleEditMessage_def split: option.splits alert.splits)

lemma heldBy_delete: "heldBy P st \<Longrightarrow> heldBy P (handleDeleteMessage st)"
  by (auto simp: heldBy_def handleDeleteMessage_def split: option.splits alert.splits)

lemma heldBy_deleteOnPress: "heldBy P st \<Longrightarrow> heldBy P (fst (deleteOnPress m ok st))"
  by (auto simp: heldBy_def deleteOnPress_def split: option.splits alert.splits)

lemma heldBy_closeAlert: "heldBy P st \<Longrightarrow> heldBy P (closeAlert st)"
  by (auto simp: heldBy_def closeAlert_def split: option.splits alert.splits)

lemma heldBy_save: "heldBy P st \<Longrightarrow> heldBy P (fst (handleSaveEdit e ok st))"
  by (auto simp: heldBy_def handleSaveEdit_def split: option.splits alert.splits)

lemma heldBy_cancel: "heldBy P st \<Longrightarrow> heldBy P (handleCancelEdit st)"
  by (auto simp: heldBy_def handleCancelEdit_def split: option.splits alert.splits)

lemma save_edit_own:
  "heldBy P st \<Longrightarrow> Request (UpdateContent i c t) \<in> set (snd (handleSaveEdit e ok st)) \<Longrightarrow>
   i \<in> msg_id ` P"
  by (auto simp: heldBy_def handleSaveEdit_def split: option.splits if_splits)

lemma step_heldBy:
  assumes "heldBy P st"
  shows "heldBy (P \<union> {m. a = LongPress m \<and> currentUser e = Some (senderId m)})
           (fst (step e a st))"
proof (cases a)
  case (LongPress m)
  have "{m'. a = LongPress m' \<and> currentUser e = Some (senderId m')} =
        {m'. m' = m \<and> currentUser e = Some (senderId m')}"
    using LongPress by auto
  with heldBy_longPress [OF assms, of m e] LongPress show ?thesis by simp
next
  case (AlertDelete ok)
  with assms show ?thesis
    by (auto simp: heldBy_deleteOnPress split: option.splits alert.splits)
qed (use assms in \<open>simp_all add: heldBy_load heldBy_send heldBy_edit heldBy_delete
       heldBy_closeAlert heldBy_save heldBy_cancel\<close>,
     simp_all add: heldBy_def)

lemma step_edit_own:
  assumes "heldBy P st" and "Request (UpdateContent i c t) \<in> set (snd (step e a st))"
  shows "i \<in> msg_id ` P"
proof (cases a)
  case (PressSave ok)
  with assms show ?thesis by (simp add: save_edit_own)
next
  case (AlertDelete ok)
  with assms show ?thesis
    by (auto simp: deleteOnPress_def split: option.splits alert.splits if_splits)
qed (use assms in \<open>simp_all add: loadUserAndMessages_no_edit send_no_edit\<close>)

lemma run_edit_own:
  "heldBy P st \<Longrightarrow> Request (UpdateContent i c t) \<in> set (snd (run e acts st)) \<Longrightarrow>
   i \<in> msg_id ` (P \<union> {m. LongPress m \<in> set acts \<and> currentUser e = Some (senderId m)})"
proof (induction acts arbitrary: P st)
  case Nil
  then show ?case by simp
next
  case (Cons a acts)
  let ?P1 = "P \<union> {m. a = LongPress m \<and> currentUser e = Some (senderId m)}"
  let ?st1 = "fst (step e a st)"
  have held: "heldBy ?P1 ?st1"
    using Cons.prems(1) by (rule step_heldBy)
  from Cons.prems(2)
  have "Request (UpdateContent i c t) \<in> set (snd (step e a st)) \<or>
        Request (UpdateContent i c t) \<in> set (snd (run e acts ?st1))"
    by (auto simp: split_beta Let_def)
  then show ?case
  proof
    assume "Request (UpdateContent i c t) \<in> set (snd (step e a st))"
    with Cons.prems(1) have "i \<in> msg_id ` P" by (rule step_edit_own)
    then show ?thesis by auto
  next
    assume "Request (UpdateContent i c t) \<in> set (snd (run e acts ?st1))"
    with held have "i \<in> msg_id ` (?P1 \<union> {m. LongPress m \<in> set acts \<and>
                                            currentUser e = Some (senderId m)})"
      by (rule Cons.IH)
    then show ?thesis by auto
  qed
qed

lemma heldBy_initial: "heldBy {} conv_initial"
  by (simp add: heldBy_def conv_initial_def)

text \<open>
  C8. A long press on a message whose sender is not the signed-in user is rejected where the
  edit is initiated: the handler returns the state as it was, so neither the action sheet nor
  the edit dialog opens for that message. Over every sequence of events from the initial
  screen, under one session identity, each content update sent to the store is keyed by the
  identifier of a message that was long-pressed and whose sender is the signed-in user. (The
  update that marks a received message as read, issued while loading, is another call.)
\<close>

theorem edit_rejected_for_foreign_sender:
  "(currentUser e \<noteq> Some (senderId m) \<longrightarrow> handleLongPress e m st = st) \<and>
   (\<forall>i c t. Request (UpdateContent i c t) \<in> set (snd (run e acts conv_initial)) \<longrightarrow>
      (\<exists>m'. LongPress m' \<in> set acts \<and> currentUser e = Some (senderId m') \<and> msg_id m' = i))"
proof (intro conjI impI allI)
  assume "currentUser e \<noteq> Some (senderId m)"
  then show "handleLongPress e m st = st"
    by (auto simp: handleLongPress_def split: option.splits)
next
  fix i c t
  assume "Request (UpdateContent i c t) \<in> set (snd (run e acts conv_initial))"
  with heldBy_initial
  have "i \<in> msg_id ` ({} \<union> {m. LongPress m \<in> set acts \<and> currentUser e = Some (senderId m)})"
    by (rule run_edit_own)
  then show "\<exists>m'. LongPress m' \<in> set acts \<and> currentUser e = Some (senderId m') \<and> msg_id m' = i"
    by auto
qed

theorem edit_rejected_for_foreign_sender_witness:
  "currentUser sample_env \<noteq> Some (senderId foreign_message) \<and>
   handleLongPress sample_env foreign_message
     ((typed_state [])\<lparr> messages := [own_message, foreign_message] \<rparr>) =
     (typed_state [])\<lparr> messages := [own_message, foreign_message] \<rparr> \<and>
   snd (run sample_env
          [LongPress foreign_message, PressEdit, ChangeEditText (js ''x''), PressSave True]
          conv_initial) = [] \<and>
   requests (snd (run sample_env
          [LongPress own_message, PressEdit, ChangeEditText (js ''x''), PressSave True]
          conv_initial)) = [UpdateContent (msg_id own_message) (js ''x'') (nowISO sample_env)]"
proof -
  let ?listed = "(typed_state [])\<lparr> messages := [own_message, foreign_message] \<rparr>"
  have foreign: "currentUser sample_env \<noteq> Some (senderId foreign_message)"
    by (simp add: sample_env_def foreign_message_def mk_message_def)
  from edit_rejected_for_foreign_sender [of sample_env foreign_message ?listed "[]"] foreign
  have rejected: "handleLongPress sample_env foreign_message ?listed = ?listed"
    by blast
  have none: "snd (run sample_env
          [LongPress foreign_message, PressEdit, ChangeEditText (js ''x''), PressSave True]
          conv_initial) = []"
    by (simp add: handleLongPress_def handleEditMessage_def handleSaveEdit_def sample_env_def
          foreign_message_def mk_message_def conv_initial_def)
  have own: "requests (snd (run sample_env
          [LongPress own_message, PressEdit, ChangeEditText (js ''x''), PressSave True]
          conv_initial)) = [UpdateContent (msg_id own_message) (js ''x'') (nowISO sample_env)]"
    by (simp add: handleLongPress_def handleEditMessage_def handleSaveEdit_def sample_env_def
          own_message_def mk_message_def conv_initial_def trim_def isWhiteSpace_def truthy_def)
  from foreign rejected none own show ?thesis by blast
qed

end
